theory Spec2Isabelle
  imports Main "HOL-Library.Word"
begin

section \<open>SourceService.kt: the public-API adapter for sources\<close>

subsection \<open>Values\<close>

text \<open>
  A \<open>java.util.UUID\<close> is represented by its canonical text, which is what
  \<open>toString()\<close> returns. A \<open>JsonNode\<close> (a connector configuration) is never
  inspected by the adapter and is represented by its text. Kotlin's \<open>Int\<close> is a 32-bit
  integer. A nullable reference is an \<open>option\<close>, \<open>None\<close> being \<open>null\<close>.
\<close>

datatype UUID = UUID (UUID_toString: string)

type_synonym JsonNode = string

type_synonym Int32 = "32 word"

text \<open>\<open>java.util.AbstractCollection.toString\<close>: the elements, separated by a comma
  and a space, in square brackets.\<close>

fun joinToString :: "string \<Rightarrow> string list \<Rightarrow> string" where
  "joinToString sep [] = []"
| "joinToString sep [x] = x"
| "joinToString sep (x # y # ys) = x @ sep @ joinToString sep (y # ys)"

definition List_toString :: "UUID list \<Rightarrow> string" where
  "List_toString xs = ''['' @ joinToString '', '' (map UUID_toString xs) @ '']''"

subsection \<open>Exceptions\<close>

text \<open>
  \<open>Thrown\<close> is any exception raised by a collaborator (a handler, the user service, the
  error handler), named by its text. \<open>NullPointerException\<close> is what the operator
  \<open>!!\<close> raises on \<open>null\<close>. \<open>UnexpectedProblem\<close> is the only exception the adapter
  constructs itself.
\<close>

datatype HttpStatus = HttpStatus_BAD_REQUEST | HttpStatus_INTERNAL_SERVER_ERROR

datatype throwable =
    Thrown string
  | NullPointerException
  | UnexpectedProblem HttpStatus string

text \<open>\<open>kotlin.Result<T>\<close>, as \<open>runCatching\<close> builds it: \<open>Inl\<close> is a failure.\<close>

type_synonym 'a Result = "throwable + 'a"

definition getOrNull :: "'a option Result \<Rightarrow> 'a option" where
  "getOrNull result = (case result of Inl _ \<Rightarrow> None | Inr v \<Rightarrow> v)"

text \<open>The operator \<open>!!\<close>.\<close>

definition notNull :: "'a option \<Rightarrow> throwable + 'a" where
  "notNull v = (case v of None \<Rightarrow> Inl NullPointerException | Some x \<Rightarrow> Inr x)"

subsection \<open>Request and response objects\<close>

text \<open>
  The generated API classes are Java beans: every field is a nullable reference, unset
  after the default constructor. Only the fields the adapter reads or writes are listed.
\<close>

record SourceCreateRequest =
  SourceCreateRequest_name :: "string option"
  SourceCreateRequest_workspaceId :: "UUID option"
  SourceCreateRequest_configuration :: "JsonNode option"
  SourceCreateRequest_secretId :: "string option"

record SourcePutRequest =
  SourcePutRequest_name :: "string option"
  SourcePutRequest_configuration :: "JsonNode option"

record SourcePatchRequest =
  SourcePatchRequest_name :: "string option"
  SourcePatchRequest_configuration :: "JsonNode option"
  SourcePatchRequest_secretId :: "string option"

record SourceCreate =
  SourceCreate_name :: "string option"
  SourceCreate_sourceDefinitionId :: "UUID option"
  SourceCreate_workspaceId :: "UUID option"
  SourceCreate_connectionConfiguration :: "JsonNode option"
  SourceCreate_secretId :: "string option"

record SourceUpdate =
  SourceUpdate_sourceId :: "UUID option"
  SourceUpdate_connectionConfiguration :: "JsonNode option"
  SourceUpdate_name :: "string option"

record PartialSourceUpdate =
  PartialSourceUpdate_sourceId :: "UUID option"
  PartialSourceUpdate_connectionConfiguration :: "JsonNode option"
  PartialSourceUpdate_name :: "string option"
  PartialSourceUpdate_secretId :: "string option"

record SourceIdRequestBody =
  SourceIdRequestBody_sourceId :: "UUID option"

record SourceDiscoverSchemaRequestBody =
  SourceDiscoverSchemaRequestBody_sourceId :: "UUID option"
  SourceDiscoverSchemaRequestBody_disableCache :: "bool option"

record Pagination =
  pageSize :: "Int32 option"
  rowOffset :: "Int32 option"

record ListResourcesForWorkspacesRequestBody =
  includeDeleted :: "bool option"
  pagination :: "Pagination option"
  workspaceIds :: "UUID list option"

record FailureReason =
  externalMessage :: "string option"
  internalMessage :: "string option"

record SynchronousJobRead =
  succeeded :: "bool option"
  failureReason :: "FailureReason option"

text \<open>The discovery result: the adapter reads \<open>jobInfo\<close> only; the other fields
  (the catalog and so on) are the record's extension.\<close>

record SourceDiscoverSchemaRead =
  jobInfo :: "SynchronousJobRead option"

text \<open>\<open>javax.ws.rs.core.Response\<close>, with the status codes of
  \<open>Response.Status\<close>.\<close>

datatype Status = Status_OK | Status_BAD_REQUEST | Status_NOT_FOUND
  | Status_INTERNAL_SERVER_ERROR | Status_NOT_IMPLEMENTED

fun getStatusCode :: "Status \<Rightarrow> nat" where
  "getStatusCode Status_OK = 200"
| "getStatusCode Status_BAD_REQUEST = 400"
| "getStatusCode Status_NOT_FOUND = 404"
| "getStatusCode Status_INTERNAL_SERVER_ERROR = 500"
| "getStatusCode Status_NOT_IMPLEMENTED = 501"

record Response =
  Response_status :: Status
  Response_entity :: "JsonNode option"

subsection \<open>Effects\<close>

text \<open>
  Every call the adapter makes to a collaborator is an event of the call's trace, in
  program order. The handler calls carry the internal request object they are given.
\<close>

datatype event =
    Call_createSource SourceCreate
  | Call_updateSource SourceUpdate
  | Call_partialUpdateSource PartialSourceUpdate
  | Call_deleteSource SourceIdRequestBody
  | Call_getSource SourceIdRequestBody
  | Call_discoverSchemaForSourceFromSourceId SourceDiscoverSchemaRequestBody
  | Call_listSourcesForWorkspaces ListResourcesForWorkspacesRequestBody
  | Call_currentUser
  | Call_getAllWorkspaceIdsForUser UUID
  | Log_error string throwable
  | Call_handleError throwable string
  | Log_debug

fun isHandlerCall :: "event \<Rightarrow> bool" where
  "isHandlerCall (Call_createSource _) = True"
| "isHandlerCall (Call_updateSource _) = True"
| "isHandlerCall (Call_partialUpdateSource _) = True"
| "isHandlerCall (Call_deleteSource _) = True"
| "isHandlerCall (Call_getSource _) = True"
| "isHandlerCall (Call_discoverSchemaForSourceFromSourceId _) = True"
| "isHandlerCall (Call_listSourcesForWorkspaces _) = True"
| "isHandlerCall _ = False"

fun isHandleError :: "event \<Rightarrow> bool" where
  "isHandleError (Call_handleError _ _) = True"
| "isHandleError _ = False"

definition handlerCalls :: "event list \<Rightarrow> event list" where
  "handlerCalls trace = filter isHandlerCall trace"

definition handleErrorCalls :: "event list \<Rightarrow> event list" where
  "handleErrorCalls trace = filter isHandleError trace"

subsection \<open>The service and its collaborators\<close>

text \<open>
  \<open>SourceServiceImpl\<close> with what is injected into it. The collaborators are not part of
  the file and are parameters: a handler method is a function from its request to the
  exception it throws or the (nullable) object it returns; within one call of the adapter
  each is asked at most once, so a function is all of its behaviour that the adapter can
  see. \<open>ConfigClientErrorHandler.handleError\<close> either throws (\<open>Some\<close>) or returns
  normally (\<open>None\<close>). The two mappers are pure functions of their arguments.
\<close>

record ('sr, 'srl, 'resp, 'resps, 'z) SourceServiceImpl =
  userService_getAllWorkspaceIdsForUser :: "UUID \<Rightarrow> throwable + UUID list"
  sourceHandler_createSource :: "SourceCreate \<Rightarrow> 'sr option Result"
  sourceHandler_updateSource :: "SourceUpdate \<Rightarrow> 'sr option Result"
  sourceHandler_partialUpdateSource :: "PartialSourceUpdate \<Rightarrow> 'sr option Result"
  sourceHandler_deleteSource :: "SourceIdRequestBody \<Rightarrow> unit Result"
  sourceHandler_getSource :: "SourceIdRequestBody \<Rightarrow> 'sr option Result"
  sourceHandler_listSourcesForWorkspaces ::
    "ListResourcesForWorkspacesRequestBody \<Rightarrow> 'srl option Result"
  schedulerHandler_discoverSchemaForSourceFromSourceId ::
    "SourceDiscoverSchemaRequestBody \<Rightarrow> 'z SourceDiscoverSchemaRead_scheme option Result"
  currentUserService_currentUser_userId :: "throwable + UUID"
  publicApiHost :: "string option"
  ConfigClientErrorHandler_handleError :: "throwable \<Rightarrow> string \<Rightarrow> throwable option"
  SourceReadMapper_from :: "'sr \<Rightarrow> 'resp"
  SourcesResponseMapper_from ::
    "'srl \<Rightarrow> UUID list \<Rightarrow> bool \<Rightarrow> Int32 \<Rightarrow> Int32 \<Rightarrow> string \<Rightarrow> 'resps"

text \<open>
  \<open>runCatching { call }.onFailure { log.error(msg, it); handleError(it, resourceId) }\<close>:
  the call is made once; on a failure the error is logged and handed to the error handler,
  and what the error handler throws leaves the adapter's method at once. Otherwise the
  \<open>Result\<close> (a success, or the failure when the error handler returned) is the value.
\<close>

definition runCatching_onFailure ::
  "(throwable \<Rightarrow> string \<Rightarrow> throwable option) \<Rightarrow> event \<Rightarrow> 'a Result \<Rightarrow> string \<Rightarrow> string
    \<Rightarrow> event list \<times> (throwable + 'a Result)" where
  "runCatching_onFailure handleError call result msg resourceId =
     (case result of
        Inr _ \<Rightarrow> ([call], Inr result)
      | Inl it \<Rightarrow>
          (case handleError it resourceId of
             Some problem \<Rightarrow> ([call, Log_error msg it, Call_handleError it resourceId], Inl problem)
           | None \<Rightarrow> ([call, Log_error msg it, Call_handleError it resourceId], Inr result)))"

subsection \<open>The operations\<close>

definition createSource ::
  "('sr, 'srl, 'resp, 'resps, 'z) SourceServiceImpl \<Rightarrow> SourceCreateRequest \<Rightarrow> UUID
    \<Rightarrow> event list \<times> (throwable + 'resp)" where
  "createSource svc sourceCreateRequest sourceDefinitionId =
     (let sourceCreateOss =
            \<lparr>SourceCreate_name = SourceCreateRequest_name sourceCreateRequest,
             SourceCreate_sourceDefinitionId = Some sourceDefinitionId,
             SourceCreate_workspaceId = SourceCreateRequest_workspaceId sourceCreateRequest,
             SourceCreate_connectionConfiguration =
               SourceCreateRequest_configuration sourceCreateRequest,
             SourceCreate_secretId = SourceCreateRequest_secretId sourceCreateRequest\<rparr>
      in case runCatching_onFailure (ConfigClientErrorHandler_handleError svc)
                (Call_createSource sourceCreateOss)
                (sourceHandler_createSource svc sourceCreateOss)
                ''Error for createSource'' (UUID_toString sourceDefinitionId) of
           (trace, Inl problem) \<Rightarrow> (trace, Inl problem)
         | (trace, Inr result) \<Rightarrow>
             (trace @ [Log_debug],
              map_sum id (SourceReadMapper_from svc) (notNull (getOrNull result))))"

definition updateSource ::
  "('sr, 'srl, 'resp, 'resps, 'z) SourceServiceImpl \<Rightarrow> UUID \<Rightarrow> SourcePutRequest
    \<Rightarrow> event list \<times> (throwable + 'resp)" where
  "updateSource svc sourceId sourcePutRequest =
     (let sourceUpdate =
            \<lparr>SourceUpdate_sourceId = Some sourceId,
             SourceUpdate_connectionConfiguration =
               SourcePutRequest_configuration sourcePutRequest,
             SourceUpdate_name = SourcePutRequest_name sourcePutRequest\<rparr>
      in case runCatching_onFailure (ConfigClientErrorHandler_handleError svc)
                (Call_updateSource sourceUpdate)
                (sourceHandler_updateSource svc sourceUpdate)
                ''Error for updateSource'' (UUID_toString sourceId) of
           (trace, Inl problem) \<Rightarrow> (trace, Inl problem)
         | (trace, Inr result) \<Rightarrow>
             (trace @ [Log_debug],
              map_sum id (SourceReadMapper_from svc) (notNull (getOrNull result))))"

definition partialUpdateSource ::
  "('sr, 'srl, 'resp, 'resps, 'z) SourceServiceImpl \<Rightarrow> UUID \<Rightarrow> SourcePatchRequest
    \<Rightarrow> event list \<times> (throwable + 'resp)" where
  "partialUpdateSource svc sourceId sourcePatchRequest =
     (let sourceUpdate =
            \<lparr>PartialSourceUpdate_sourceId = Some sourceId,
             PartialSourceUpdate_connectionConfiguration =
               SourcePatchRequest_configuration sourcePatchRequest,
             PartialSourceUpdate_name = SourcePatchRequest_name sourcePatchRequest,
             PartialSourceUpdate_secretId = SourcePatchRequest_secretId sourcePatchRequest\<rparr>
      in case runCatching_onFailure (ConfigClientErrorHandler_handleError svc)
                (Call_partialUpdateSource sourceUpdate)
                (sourceHandler_partialUpdateSource svc sourceUpdate)
                ''Error for partialUpdateSource'' (UUID_toString sourceId) of
           (trace, Inl problem) \<Rightarrow> (trace, Inl problem)
         | (trace, Inr result) \<Rightarrow>
             (trace @ [Log_debug],
              map_sum id (SourceReadMapper_from svc) (notNull (getOrNull result))))"

text \<open>\<open>deleteSource\<close> returns \<open>Unit\<close> and never unwraps the result: when the error
  handler returns, so does the method.\<close>

definition deleteSource ::
  "('sr, 'srl, 'resp, 'resps, 'z) SourceServiceImpl \<Rightarrow> UUID \<Rightarrow> event list \<times> (throwable + unit)" where
  "deleteSource svc sourceId =
     (let sourceIdRequestBody = \<lparr>SourceIdRequestBody_sourceId = Some sourceId\<rparr>
      in case runCatching_onFailure (ConfigClientErrorHandler_handleError svc)
                (Call_deleteSource sourceIdRequestBody)
                (sourceHandler_deleteSource svc sourceIdRequestBody)
                ''Error for deleteSource'' (UUID_toString sourceId) of
           (trace, Inl problem) \<Rightarrow> (trace, Inl problem)
         | (trace, Inr result) \<Rightarrow> (trace @ [Log_debug], Inr ()))"

definition getSource ::
  "('sr, 'srl, 'resp, 'resps, 'z) SourceServiceImpl \<Rightarrow> UUID \<Rightarrow> event list \<times> (throwable + 'resp)" where
  "getSource svc sourceId =
     (let sourceIdRequestBody = \<lparr>SourceIdRequestBody_sourceId = Some sourceId\<rparr>
      in case runCatching_onFailure (ConfigClientErrorHandler_handleError svc)
                (Call_getSource sourceIdRequestBody)
                (sourceHandler_getSource svc sourceIdRequestBody)
                ''Error for getSource'' (UUID_toString sourceId) of
           (trace, Inl problem) \<Rightarrow> (trace, Inl problem)
         | (trace, Inr result) \<Rightarrow>
             (trace @ [Log_debug],
              map_sum id (SourceReadMapper_from svc) (notNull (getOrNull result))))"

text \<open>The condition \<open>jobInfo?.succeeded == false\<close>: a safe call on a \<open>null\<close>
  \<open>jobInfo\<close> gives \<open>null\<close>, and \<open>null == false\<close> is false.\<close>

definition succeededIsFalse :: "'z SourceDiscoverSchemaRead_scheme \<Rightarrow> bool" where
  "succeededIsFalse r =
     (case jobInfo r of None \<Rightarrow> False | Some job \<Rightarrow> succeeded job = Some False)"

definition errorMessage :: "FailureReason \<Rightarrow> string" where
  "errorMessage reason =
     (case externalMessage reason of
        Some ext \<Rightarrow> ''Something went wrong in the connector.'' @ '' logs:'' @ ext
      | None \<Rightarrow>
          (case internalMessage reason of
             Some internal \<Rightarrow> ''Something went wrong in the connector.'' @ '' logs:'' @ internal
           | None \<Rightarrow> ''Something went wrong in the connector.''))"

definition getSourceSchema ::
  "('sr, 'srl, 'resp, 'resps, 'z) SourceServiceImpl \<Rightarrow> UUID \<Rightarrow> bool
    \<Rightarrow> event list \<times> (throwable + 'z SourceDiscoverSchemaRead_scheme)" where
  "getSourceSchema svc sourceId disableCache =
     (let sourceDiscoverSchemaRequestBody =
            \<lparr>SourceDiscoverSchemaRequestBody_sourceId = Some sourceId,
             SourceDiscoverSchemaRequestBody_disableCache = Some disableCache\<rparr>
      in case runCatching_onFailure (ConfigClientErrorHandler_handleError svc)
                (Call_discoverSchemaForSourceFromSourceId sourceDiscoverSchemaRequestBody)
                (schedulerHandler_discoverSchemaForSourceFromSourceId svc
                   sourceDiscoverSchemaRequestBody)
                ''Error for getSourceSchema'' (UUID_toString sourceId) of
           (trace, Inl problem) \<Rightarrow> (trace, Inl problem)
         | (trace, Inr result) \<Rightarrow>
             (case notNull (getOrNull result) of
                Inl npe \<Rightarrow> (trace, Inl npe)
              | Inr sourceDefinitionSpecificationRead \<Rightarrow>
                  (if succeededIsFalse sourceDefinitionSpecificationRead then
                     (case Option.bind (jobInfo sourceDefinitionSpecificationRead) failureReason of
                        None \<Rightarrow> (trace @ [Log_debug], Inl NullPointerException)
                      | Some reason \<Rightarrow>
                          (trace @ [Log_debug],
                           Inl (UnexpectedProblem HttpStatus_BAD_REQUEST (errorMessage reason))))
                   else (trace @ [Log_debug], notNull (getOrNull result)))))"

definition listSourcesForWorkspaces ::
  "('sr, 'srl, 'resp, 'resps, 'z) SourceServiceImpl \<Rightarrow> UUID list \<Rightarrow> bool \<Rightarrow> Int32 \<Rightarrow> Int32
    \<Rightarrow> event list \<times> (throwable + 'resps)" where
  "listSourcesForWorkspaces svc workspaceIds' includeDeleted' limit offset =
     (let pagination' = \<lparr>pageSize = Some limit, rowOffset = Some offset\<rparr>;
          ifEmpty =
            (if workspaceIds' = [] then
               (case currentUserService_currentUser_userId svc of
                  Inl e \<Rightarrow> ([Call_currentUser], Inl e)
                | Inr userId \<Rightarrow>
                    ([Call_currentUser, Call_getAllWorkspaceIdsForUser userId],
                     userService_getAllWorkspaceIdsForUser svc userId))
             else ([], Inr workspaceIds'))
      in case ifEmpty of
           (trace0, Inl e) \<Rightarrow> (trace0, Inl e)
         | (trace0, Inr workspaceIdsToQuery) \<Rightarrow>
             (let listResourcesForWorkspacesRequestBody =
                    \<lparr>includeDeleted = Some includeDeleted',
                     pagination = Some pagination',
                     workspaceIds = Some workspaceIdsToQuery\<rparr>
              in case runCatching_onFailure (ConfigClientErrorHandler_handleError svc)
                        (Call_listSourcesForWorkspaces listResourcesForWorkspacesRequestBody)
                        (sourceHandler_listSourcesForWorkspaces svc
                           listResourcesForWorkspacesRequestBody)
                        ''Error for listSourcesForWorkspaces'' (List_toString workspaceIds') of
                   (trace, Inl problem) \<Rightarrow> (trace0 @ trace, Inl problem)
                 | (trace, Inr result) \<Rightarrow>
                     (trace0 @ trace @ [Log_debug],
                      (case notNull (getOrNull result) of
                         Inl npe \<Rightarrow> Inl npe
                       | Inr sourceReadList \<Rightarrow>
                           (case notNull (publicApiHost svc) of
                              Inl npe \<Rightarrow> Inl npe
                            | Inr host \<Rightarrow>
                                Inr (SourcesResponseMapper_from svc sourceReadList workspaceIds'
                                       includeDeleted' limit offset host))))))"

definition controllerInitiateOAuth ::
  "('sr, 'srl, 'resp, 'resps, 'z) SourceServiceImpl \<Rightarrow> 'o option
    \<Rightarrow> event list \<times> (throwable + Response)" where
  "controllerInitiateOAuth svc initiateOauthRequest =
     ([], Inr \<lparr>Response_status = Status_NOT_IMPLEMENTED, Response_entity = None\<rparr>)"

subsection \<open>The interface\<close>

text \<open>
  A call of the interface \<open>SourceService\<close> is a method with its arguments; what it
  returns is one of the five return types of the interface. \<open>invoke\<close> is the call.
\<close>

datatype 'o operation =
    CreateSource SourceCreateRequest UUID
  | UpdateSource UUID SourcePutRequest
  | PartialUpdateSource UUID SourcePatchRequest
  | DeleteSource UUID
  | GetSource UUID
  | GetSourceSchema UUID bool
  | ListSourcesForWorkspaces "UUID list" bool Int32 Int32
  | ControllerInitiateOAuth "'o option"

datatype ('resp, 'resps, 'z) returned =
    Returned_SourceResponse 'resp
  | Returned_SourcesResponse 'resps
  | Returned_SourceDiscoverSchemaRead "'z SourceDiscoverSchemaRead_scheme"
  | Returned_Unit
  | Returned_Response Response

fun invoke ::
  "('sr, 'srl, 'resp, 'resps, 'z) SourceServiceImpl \<Rightarrow> 'o operation
    \<Rightarrow> event list \<times> (throwable + ('resp, 'resps, 'z) returned)" where
  "invoke svc (CreateSource sourceCreateRequest sourceDefinitionId) =
     apsnd (map_sum id Returned_SourceResponse)
       (createSource svc sourceCreateRequest sourceDefinitionId)"
| "invoke svc (UpdateSource sourceId sourcePutRequest) =
     apsnd (map_sum id Returned_SourceResponse) (updateSource svc sourceId sourcePutRequest)"
| "invoke svc (PartialUpdateSource sourceId sourcePatchRequest) =
     apsnd (map_sum id Returned_SourceResponse)
       (partialUpdateSource svc sourceId sourcePatchRequest)"
| "invoke svc (DeleteSource sourceId) =
     apsnd (map_sum id (\<lambda>_. Returned_Unit)) (deleteSource svc sourceId)"
| "invoke svc (GetSource sourceId) =
     apsnd (map_sum id Returned_SourceResponse) (getSource svc sourceId)"
| "invoke svc (GetSourceSchema sourceId disableCache) =
     apsnd (map_sum id Returned_SourceDiscoverSchemaRead)
       (getSourceSchema svc sourceId disableCache)"
| "invoke svc (ListSourcesForWorkspaces workspaceIds' includeDeleted' limit offset) =
     apsnd (map_sum id Returned_SourcesResponse)
       (listSourcesForWorkspaces svc workspaceIds' includeDeleted' limit offset)"
| "invoke svc (ControllerInitiateOAuth initiateOauthRequest) =
     apsnd (map_sum id Returned_Response) (controllerInitiateOAuth svc initiateOauthRequest)"

text \<open>A call ends in one of three ways: it throws, it returns \<open>Unit\<close>, or it returns a
  response object.\<close>

fun terminatesExceptionally :: "throwable + 'a \<Rightarrow> bool" where
  "terminatesExceptionally (Inl _) = True"
| "terminatesExceptionally (Inr _) = False"


section \<open>ConnectionJobHistoryPage.tsx: the job history page\<close>

subsection \<open>The query of the job list\<close>

definition JOB_PAGE_SIZE_INCREMENT :: nat where
  "JOB_PAGE_SIZE_INCREMENT = 15"

text \<open>The connection of the page, with the fields the page reads.\<close>

record ConnectionSource =
  sourceName :: string
  sourceDefinitionId :: string

record ConnectionDestination =
  destinationName :: string
  destinationDefinitionId :: string

record 'sd Connection =
  connectionId :: string
  source :: "ConnectionSource option"
  destination :: "ConnectionDestination option"
  scheduleData :: "'sd option"

record JobHistoryFilterValues =
  jobStatus :: string
  startDate :: string
  endDate :: string

text \<open>
  The library \<open>dayjs\<close> is not part of the page and is a parameter: parsing a string with
  a format, \<open>startOf\<close> and \<open>endOf\<close> a unit, and \<open>toISOString\<close>, each of which
  returns or throws (\<open>Inl\<close>).
\<close>

record ('d, 'x) Dayjs =
  dayjs :: "string \<Rightarrow> string \<Rightarrow> 'x + 'd"
  startOf :: "'d \<Rightarrow> string \<Rightarrow> 'x + 'd"
  endOf :: "'d \<Rightarrow> string \<Rightarrow> 'x + 'd"
  toISOString :: "'d \<Rightarrow> 'x + string"

text \<open>\<open>try { return dayjs(date, "YYYY-MM-DD").startOf("day").toISOString(); }
  catch { return undefined; }\<close>\<close>

definition startOfDay :: "('d, 'x) Dayjs \<Rightarrow> string \<Rightarrow> string option" where
  "startOfDay lib date =
     (case dayjs lib date ''YYYY-MM-DD'' of
        Inl _ \<Rightarrow> None
      | Inr parsed \<Rightarrow>
          (case startOf lib parsed ''day'' of
             Inl _ \<Rightarrow> None
           | Inr boundary \<Rightarrow>
               (case toISOString lib boundary of Inl _ \<Rightarrow> None | Inr timestamp \<Rightarrow> Some timestamp)))"

definition endOfDay :: "('d, 'x) Dayjs \<Rightarrow> string \<Rightarrow> string option" where
  "endOfDay lib date =
     (case dayjs lib date ''YYYY-MM-DD'' of
        Inl _ \<Rightarrow> None
      | Inr parsed \<Rightarrow>
          (case endOf lib parsed ''day'' of
             Inl _ \<Rightarrow> None
           | Inr boundary \<Rightarrow>
               (case toISOString lib boundary of Inl _ \<Rightarrow> None | Inr timestamp \<Rightarrow> Some timestamp)))"

text \<open>The first argument of \<open>useListJobs\<close>; \<open>undefined\<close> is \<open>None\<close>. \<open>Number\<close>, the
  conversion of the linked job's id, is a parameter.\<close>

record 'n ListJobsParams =
  configId :: string
  configTypes :: "string list"
  includingJobId :: "'n option"
  statuses :: "string list option"
  updatedAtStart :: "string option"
  updatedAtEnd :: "string option"

definition listJobsParams ::
  "('d, 'x) Dayjs \<Rightarrow> (string \<Rightarrow> 'n) \<Rightarrow> 'sd Connection \<Rightarrow> string option
    \<Rightarrow> JobHistoryFilterValues \<Rightarrow> 'n ListJobsParams" where
  "listJobsParams lib Number connection linkedJobId filterValues =
     \<lparr>configId = connectionId connection,
      configTypes = [''sync'', ''reset_connection''],
      includingJobId =
        (case linkedJobId of
           None \<Rightarrow> None
         | Some jobId \<Rightarrow> if jobId = [] then None else Some (Number jobId)),
      statuses =
        (if jobStatus filterValues = ''all'' then None else Some [jobStatus filterValues]),
      updatedAtStart =
        (if startDate filterValues \<noteq> [] then startOfDay lib (startDate filterValues)
         else None),
      updatedAtEnd =
        (if endDate filterValues \<noteq> [] then endOfDay lib (endDate filterValues) else None)\<rparr>"

subsection \<open>The dates of the host\<close>

text \<open>
  What \<open>dayjs\<close> and the \<open>Date\<close> of the JavaScript engine do with a date-only string,
  in the words of the language specification. A time value is a number of milliseconds
  since the epoch, in UTC; \<open>NaN\<close>, the value of an invalid date, is \<open>None\<close>. The host's
  local time is \<open>LocalTZA\<close> milliseconds ahead of UTC, at all times.
\<close>

definition msPerDay :: int where
  "msPerDay = 86400000"

definition Day :: "int \<Rightarrow> int" where
  "Day t = t div msPerDay"

definition DaysInYear :: "int \<Rightarrow> int" where
  "DaysInYear y =
     (if y mod 4 \<noteq> 0 then 365 else if y mod 100 \<noteq> 0 then 366
      else if y mod 400 \<noteq> 0 then 365 else 366)"

definition DayFromYear :: "int \<Rightarrow> int" where
  "DayFromYear y =
     365 * (y - 1970) + (y - 1969) div 4 - (y - 1901) div 100 + (y - 1601) div 400"

text \<open>The year of a day is the largest \<open>y\<close> with \<open>DayFromYear y\<close> not after it
  (\<open>YearFromDay_eq\<close> below): an estimate from the mean length of a year, corrected by at
  most one.\<close>

definition YearFromDay :: "int \<Rightarrow> int" where
  "YearFromDay day =
     (let y = 1970 + (400 * day) div 146097
      in if day < DayFromYear y then y - 1
         else if DayFromYear (y + 1) \<le> day then y + 1
         else y)"

definition InLeapYear :: "int \<Rightarrow> int" where
  "InLeapYear y = (if DaysInYear y = 366 then 1 else 0)"

definition YearFromTime :: "int \<Rightarrow> int" where
  "YearFromTime t = YearFromDay (Day t)"

definition DayWithinYear :: "int \<Rightarrow> int" where
  "DayWithinYear t = Day t - DayFromYear (YearFromTime t)"

definition MonthFromTime :: "int \<Rightarrow> int" where
  "MonthFromTime t =
     (let d = DayWithinYear t; leap = InLeapYear (YearFromTime t)
      in if d < 31 then 0
         else if d < 59 + leap then 1
         else if d < 90 + leap then 2
         else if d < 120 + leap then 3
         else if d < 151 + leap then 4
         else if d < 181 + leap then 5
         else if d < 212 + leap then 6
         else if d < 243 + leap then 7
         else if d < 273 + leap then 8
         else if d < 304 + leap then 9
         else if d < 334 + leap then 10
         else 11)"

definition DateFromTime :: "int \<Rightarrow> int" where
  "DateFromTime t =
     (let d = DayWithinYear t; leap = InLeapYear (YearFromTime t); m = MonthFromTime t
      in if m = 0 then d + 1
         else if m = 1 then d - 30
         else if m = 2 then d - 58 - leap
         else if m = 3 then d - 89 - leap
         else if m = 4 then d - 119 - leap
         else if m = 5 then d - 150 - leap
         else if m = 6 then d - 180 - leap
         else if m = 7 then d - 211 - leap
         else if m = 8 then d - 242 - leap
         else if m = 9 then d - 272 - leap
         else if m = 10 then d - 303 - leap
         else d - 333 - leap)"

definition HourFromTime :: "int \<Rightarrow> int" where
  "HourFromTime t = (t div 3600000) mod 24"

definition MinFromTime :: "int \<Rightarrow> int" where
  "MinFromTime t = (t div 60000) mod 60"

definition SecFromTime :: "int \<Rightarrow> int" where
  "SecFromTime t = (t div 1000) mod 60"

definition msFromTime :: "int \<Rightarrow> int" where
  "msFromTime t = t mod 1000"

definition MakeTime :: "int \<Rightarrow> int \<Rightarrow> int \<Rightarrow> int \<Rightarrow> int" where
  "MakeTime hour minute sec ms = hour * 3600000 + minute * 60000 + sec * 1000 + ms"

definition DaysBeforeMonth :: "int \<Rightarrow> int \<Rightarrow> int" where
  "DaysBeforeMonth leap mn =
     (if mn = 0 then 0
      else if mn = 1 then 31
      else if mn = 2 then 59 + leap
      else if mn = 3 then 90 + leap
      else if mn = 4 then 120 + leap
      else if mn = 5 then 151 + leap
      else if mn = 6 then 181 + leap
      else if mn = 7 then 212 + leap
      else if mn = 8 then 243 + leap
      else if mn = 9 then 273 + leap
      else if mn = 10 then 304 + leap
      else 334 + leap)"

text \<open>\<open>MakeDay\<close>: months beyond the year carry into the year, and the day of the month
  is only added, so that a day past the end of the month runs into the next one.\<close>

definition MakeDay :: "int \<Rightarrow> int \<Rightarrow> int \<Rightarrow> int" where
  "MakeDay year month date =
     (let ym = year + month div 12; mn = month mod 12
      in DayFromYear ym + DaysBeforeMonth (InLeapYear ym) mn + date - 1)"

definition MakeDate :: "int \<Rightarrow> int \<Rightarrow> int" where
  "MakeDate day time = day * msPerDay + time"

type_synonym Date = "int option"

definition TimeClip :: "int \<Rightarrow> Date" where
  "TimeClip time = (if \<bar>time\<bar> > 8640000000000000 then None else Some time)"

text \<open>\<open>new Date(year, month, date, hours, minutes, seconds, ms)\<close>, in local time: a
  year from 0 to 99 is a year of the twentieth century.\<close>

definition newDate :: "int \<Rightarrow> int \<Rightarrow> int \<Rightarrow> int \<Rightarrow> int \<Rightarrow> int \<Rightarrow> int \<Rightarrow> int \<Rightarrow> Date" where
  "newDate LocalTZA year month date hours minutes seconds ms =
     (let yr = (if 0 \<le> year \<and> year \<le> 99 then 1900 + year else year)
      in TimeClip (MakeDate (MakeDay yr month date) (MakeTime hours minutes seconds ms)
           - LocalTZA))"

text \<open>\<open>Date.prototype.setHours(hour, minute, sec, ms)\<close>, which returns the new time
  value.\<close>

definition setHours :: "int \<Rightarrow> Date \<Rightarrow> int \<Rightarrow> int \<Rightarrow> int \<Rightarrow> int \<Rightarrow> Date" where
  "setHours LocalTZA date hour minute sec ms =
     (case date of
        None \<Rightarrow> None
      | Some t \<Rightarrow>
          TimeClip (MakeDate (Day (t + LocalTZA)) (MakeTime hour minute sec ms) - LocalTZA))"

text \<open>Decimal digits: \<open>padded k n\<close> is \<open>n\<close> in \<open>k\<close> digits, \<open>decimal\<close> reads a
  string of digits.\<close>

definition digitChar :: "nat \<Rightarrow> char" where
  "digitChar n = ''0123456789'' ! n"

definition digitValue :: "char \<Rightarrow> nat option" where
  "digitValue c =
     map_of [(CHR ''0'', 0), (CHR ''1'', 1), (CHR ''2'', 2), (CHR ''3'', 3), (CHR ''4'', 4),
             (CHR ''5'', 5), (CHR ''6'', 6), (CHR ''7'', 7), (CHR ''8'', 8), (CHR ''9'', 9)] c"

fun padded :: "nat \<Rightarrow> nat \<Rightarrow> string" where
  "padded 0 n = []"
| "padded (Suc k) n = padded k (n div 10) @ [digitChar (n mod 10)]"

fun decimal :: "nat \<Rightarrow> string \<Rightarrow> nat option" where
  "decimal n [] = Some n"
| "decimal n (c # cs) =
     (case digitValue c of None \<Rightarrow> None | Some v \<Rightarrow> decimal (10 * n + v) cs)"

text \<open>\<open>Date.prototype.toISOString\<close>: the time value in UTC, the year in four digits
  from 0 to 9999 and in six digits with a sign otherwise; a \<open>RangeError\<close> on an invalid
  date.\<close>

datatype js_error = RangeError

definition yearString :: "int \<Rightarrow> string" where
  "yearString y =
     (if 0 \<le> y \<and> y \<le> 9999 then padded 4 (nat y)
      else (if y < 0 then ''-'' else ''+'') @ padded 6 (nat \<bar>y\<bar>))"

definition ISOString :: "int \<Rightarrow> string" where
  "ISOString t =
     yearString (YearFromTime t) @ ''-'' @ padded 2 (nat (MonthFromTime t + 1)) @ ''-''
       @ padded 2 (nat (DateFromTime t)) @ ''T'' @ padded 2 (nat (HourFromTime t))
       @ '':'' @ padded 2 (nat (MinFromTime t)) @ '':'' @ padded 2 (nat (SecFromTime t))
       @ ''.'' @ padded 3 (nat (msFromTime t)) @ ''Z''"

definition Date_toISOString :: "Date \<Rightarrow> js_error + string" where
  "Date_toISOString date = (case date of None \<Rightarrow> Inl RangeError | Some t \<Rightarrow> Inr (ISOString t))"

text \<open>
  A date-only string: four digits, a hyphen, two digits, a hyphen, two digits, read as
  year, month and day. The pattern with which \<open>dayjs\<close> reads a string matches every such
  string, with these three numbers and no time of day.
\<close>

definition dateOnly :: "string \<Rightarrow> (nat \<times> nat \<times> nat) option" where
  "dateOnly s =
     (if length s = 10 \<and> s ! 4 = CHR ''-'' \<and> s ! 7 = CHR ''-'' then
        (case (decimal 0 (take 4 s), decimal 0 (take 2 (drop 5 s)), decimal 0 (drop 8 s)) of
           (Some y, Some m, Some d) \<Rightarrow> Some (y, m, d)
         | _ \<Rightarrow> None)
      else None)"

text \<open>
  \<open>dayjs\<close> (the library alone, no plugin) for what the page asks of it. On a date-only
  string \<open>dayjs(date, format)\<close> does not read the format and is
  \<open>new Date(year, month - 1, day, 0, 0, 0, 0)\<close>; \<open>startOf("day")\<close> and
  \<open>endOf("day")\<close> are \<open>setHours(0, 0, 0, 0)\<close> and \<open>setHours(23, 59, 59, 999)\<close>;
  \<open>toISOString\<close> is that of the date. What the library does with any other string and
  any other unit is the parameter \<open>other\<close>.
\<close>

definition hostDayjs :: "int \<Rightarrow> (Date, js_error) Dayjs \<Rightarrow> (Date, js_error) Dayjs" where
  "hostDayjs LocalTZA other =
     \<lparr>dayjs =
        (\<lambda>date format.
           case dateOnly date of
             Some (y, m, d) \<Rightarrow> Inr (newDate LocalTZA (int y) (int m - 1) (int d) 0 0 0 0)
           | None \<Rightarrow> dayjs other date format),
      startOf =
        (\<lambda>d unit. if unit = ''day'' then Inr (setHours LocalTZA d 0 0 0 0)
           else startOf other d unit),
      endOf =
        (\<lambda>d unit. if unit = ''day'' then Inr (setHours LocalTZA d 23 59 59 999)
           else endOf other d unit),
      toISOString = Date_toISOString\<rparr>"


subsection \<open>The status filter\<close>

record Icon =
  Icon_type :: string
  Icon_size :: string
  Icon_color :: string

text \<open>An option of the list box: the label is the id of its message.\<close>

record ListBoxOption =
  Option_label :: string
  Option_value :: string
  Option_icon :: "Icon option"

definition statusFilterOptions :: "ListBoxOption list" where
  "statusFilterOptions =
     [\<lparr>Option_label = ''jobHistory.statusFilter.allJobs'', Option_value = ''all'',
       Option_icon = None\<rparr>,
      \<lparr>Option_label = ''jobHistory.statusFilter.successful'', Option_value = ''succeeded'',
       Option_icon =
         Some \<lparr>Icon_type = ''successFilled'', Icon_size = ''md'', Icon_color = ''success''\<rparr>\<rparr>,
      \<lparr>Option_label = ''jobHistory.statusFilter.failed'', Option_value = ''failed'',
       Option_icon =
         Some \<lparr>Icon_type = ''errorFilled'', Icon_size = ''md'', Icon_color = ''error''\<rparr>\<rparr>,
      \<lparr>Option_label = ''jobHistory.statusFilter.cancelled'', Option_value = ''cancelled'',
       Option_icon =
         Some \<lparr>Icon_type = ''statusCancelled'', Icon_size = ''md'', Icon_color = ''action''\<rparr>\<rparr>]"

subsection \<open>Loading more jobs\<close>

text \<open>The data of the infinite query, when there is any: the pages loaded so far.\<close>

record 'p InfiniteData =
  pages :: "'p list"

record 'f TrackedProperties =
  actionDescription :: string
  connection_id :: string
  connector_source :: "string option"
  connector_source_definition_id :: "string option"
  connector_destination :: "string option"
  connector_destination_definition_id :: "string option"
  frequency :: 'f
  job_page_size :: nat

datatype Namespace = Namespace_CONNECTION

datatype Action = Action_LOAD_MORE_JOBS

datatype 'f effect =
    FetchNextPage
  | Track Namespace Action "'f TrackedProperties"

text \<open>
  \<open>data?.pages.length ?? 1 * JOB_PAGE_SIZE_INCREMENT\<close>: the product binds tighter than
  \<open>??\<close>, so the right operand is \<open>1 * JOB_PAGE_SIZE_INCREMENT\<close> and the left one the
  number of pages.
\<close>

definition onLoadMoreJobs ::
  "('sd option \<Rightarrow> 'f) \<Rightarrow> 'sd Connection \<Rightarrow> 'p InfiniteData option \<Rightarrow> 'f effect list" where
  "onLoadMoreJobs getFrequencyFromScheduleData connection data =
     [FetchNextPage,
      Track Namespace_CONNECTION Action_LOAD_MORE_JOBS
        \<lparr>actionDescription = ''Load more jobs button was clicked'',
         connection_id = connectionId connection,
         connector_source = map_option sourceName (source connection),
         connector_source_definition_id = map_option sourceDefinitionId (source connection),
         connector_destination = map_option destinationName (destination connection),
         connector_destination_definition_id =
           map_option destinationDefinitionId (destination connection),
         frequency = getFrequencyFromScheduleData (scheduleData connection),
         job_page_size =
           (case data of
              None \<Rightarrow> 1 * JOB_PAGE_SIZE_INCREMENT
            | Some d \<Rightarrow> length (pages d))\<rparr>]"

text \<open>The \<open>job_page_size\<close> of the events a click tracks.\<close>

fun tracked_job_page_size :: "'f effect list \<Rightarrow> nat list" where
  "tracked_job_page_size [] = []"
| "tracked_job_page_size (FetchNextPage # es) = tracked_job_page_size es"
| "tracked_job_page_size (Track _ _ properties # es) =
     job_page_size properties # tracked_job_page_size es"

section \<open>Instances for the examples\<close>

text \<open>
  A service whose source handler is unavailable for every method but the listing, whose
  error handler translates every failure into a problem, and whose mappers keep what they
  are given; the results of schema discovery and of the listing are its parameters.
\<close>

definition stubService ::
  "unit SourceDiscoverSchemaRead_scheme option Result \<Rightarrow> string list option Result
    \<Rightarrow> (string, string list, string, string list \<times> UUID list, unit) SourceServiceImpl" where
  "stubService discovered listed =
     \<lparr>userService_getAllWorkspaceIdsForUser = (\<lambda>userId. Inr [UUID ''w1'', UUID ''w2'']),
      sourceHandler_createSource = (\<lambda>request. Inl (Thrown ''unavailable'')),
      sourceHandler_updateSource = (\<lambda>request. Inl (Thrown ''unavailable'')),
      sourceHandler_partialUpdateSource = (\<lambda>request. Inl (Thrown ''unavailable'')),
      sourceHandler_deleteSource = (\<lambda>request. Inl (Thrown ''unavailable'')),
      sourceHandler_getSource = (\<lambda>request. Inl (Thrown ''unavailable'')),
      sourceHandler_listSourcesForWorkspaces = (\<lambda>request. listed),
      schedulerHandler_discoverSchemaForSourceFromSourceId = (\<lambda>request. discovered),
      currentUserService_currentUser_userId = Inr (UUID ''u1''),
      publicApiHost = Some ''https://api.example'',
      ConfigClientErrorHandler_handleError =
        (\<lambda>it resourceId. Some (UnexpectedProblem HttpStatus_INTERNAL_SERVER_ERROR resourceId)),
      SourceReadMapper_from = id,
      SourcesResponseMapper_from =
        (\<lambda>sourceReadList workspaceIds includeDeleted limit offset host.
           (sourceReadList, workspaceIds))\<rparr>"


definition echoUpdate :: "SourceUpdate \<Rightarrow> string option Result" where
  "echoUpdate request =
     (case (SourceUpdate_sourceId request, SourceUpdate_name request,
            SourceUpdate_connectionConfiguration request) of
        (Some sourceId, Some name, Some configuration) \<Rightarrow>
          Inr (Some (UUID_toString sourceId @ '' '' @ name @ '' '' @ configuration))
      | _ \<Rightarrow> Inl (Thrown ''incomplete''))"

definition echoPartialUpdate :: "PartialSourceUpdate \<Rightarrow> string option Result" where
  "echoPartialUpdate request =
     (case (PartialSourceUpdate_sourceId request, PartialSourceUpdate_name request,
            PartialSourceUpdate_connectionConfiguration request,
            PartialSourceUpdate_secretId request) of
        (Some sourceId, Some name, Some configuration, Some secretId) \<Rightarrow>
          Inr (Some (UUID_toString sourceId @ '' '' @ name @ '' '' @ configuration @ '' ''
                 @ secretId))
      | _ \<Rightarrow> Inl (Thrown ''incomplete''))"

definition exampleConnection :: "unit Connection" where
  "exampleConnection =
     \<lparr>connectionId = ''c1'', source = None, destination = None, scheduleData = None\<rparr>"

section \<open>Properties of the adapter\<close>

lemmas operation_defs =
  createSource_def updateSource_def partialUpdateSource_def deleteSource_def getSource_def
  getSourceSchema_def listSourcesForWorkspaces_def controllerInitiateOAuth_def
  runCatching_onFailure_def Let_def

subsection \<open>A failed discovery job\<close>

text \<open>
  C1, as stated, fails where the failed job carries no failure reason: the adapter unwraps
  \<open>failureReason\<close> with \<open>!!\<close>, and what is raised is a \<open>NullPointerException\<close>, not
  the bad-request problem.
\<close>

theorem getSourceSchema_null_failureReason_counterexample:
  "snd (getSourceSchema
          (stubService
             (Inr (Some \<lparr>jobInfo = Some \<lparr>succeeded = Some False, failureReason = None\<rparr>\<rparr>))
             (Inl (Thrown ''unavailable'')))
          (UUID ''s1'') False) = Inl NullPointerException"
  by (simp add: operation_defs stubService_def notNull_def getOrNull_def succeededIsFalse_def)

text \<open>
  C1, amended: when the discovery returns a result whose job has \<open>succeeded\<close> equal to
  false and a failure reason that is not null, \<open>getSourceSchema\<close> raises an
  \<open>UnexpectedProblem\<close> with status \<open>BAD_REQUEST\<close>; its message is the fixed sentence
  followed by \<open>" logs:"\<close> and the external message when that is not null, otherwise by
  \<open>" logs:"\<close> and the internal message when that is not null, and the fixed sentence
  alone when both are null.
\<close>

theorem getSourceSchema_failed_job_bad_request:
  assumes "schedulerHandler_discoverSchemaForSourceFromSourceId svc
             \<lparr>SourceDiscoverSchemaRequestBody_sourceId = Some sourceId,
              SourceDiscoverSchemaRequestBody_disableCache = Some disableCache\<rparr> = Inr (Some r)"
    and "jobInfo r = Some job"
    and "succeeded job = Some False"
    and "failureReason job = Some reason"
  shows "\<exists>message.
     snd (getSourceSchema svc sourceId disableCache) =
       Inl (UnexpectedProblem HttpStatus_BAD_REQUEST message) \<and>
     (\<forall>ext. externalMessage reason = Some ext \<longrightarrow>
        message = ''Something went wrong in the connector. logs:'' @ ext) \<and>
     (\<forall>internal. externalMessage reason = None \<and> internalMessage reason = Some internal \<longrightarrow>
        message = ''Something went wrong in the connector. logs:'' @ internal) \<and>
     (externalMessage reason = None \<and> internalMessage reason = None \<longrightarrow>
        message = ''Something went wrong in the connector.'')"
  using assms
  by (simp add: operation_defs notNull_def getOrNull_def succeededIsFalse_def errorMessage_def)

theorem getSourceSchema_failed_job_bad_request_witness:
  "snd (getSourceSchema
          (stubService
             (Inr (Some \<lparr>jobInfo = Some \<lparr>succeeded = Some False,
                failureReason = Some \<lparr>externalMessage = Some ''refused'',
                  internalMessage = Some ''stack''\<rparr>\<rparr>\<rparr>))
             (Inl (Thrown ''unavailable'')))
          (UUID ''s1'') False) =
     Inl (UnexpectedProblem HttpStatus_BAD_REQUEST
            ''Something went wrong in the connector. logs:refused'')"
  using getSourceSchema_failed_job_bad_request
    [where svc = "stubService
             (Inr (Some \<lparr>jobInfo = Some \<lparr>succeeded = Some False,
                failureReason = Some \<lparr>externalMessage = Some ''refused'',
                  internalMessage = Some ''stack''\<rparr>\<rparr>\<rparr>))
             (Inl (Thrown ''unavailable''))"
       and sourceId = "UUID ''s1''" and disableCache = False
       and r = "\<lparr>jobInfo = Some \<lparr>succeeded = Some False,
                failureReason = Some \<lparr>externalMessage = Some ''refused'',
                  internalMessage = Some ''stack''\<rparr>\<rparr>\<rparr>"
       and job = "\<lparr>succeeded = Some False,
                failureReason = Some \<lparr>externalMessage = Some ''refused'',
                  internalMessage = Some ''stack''\<rparr>\<rparr>"
       and reason = "\<lparr>externalMessage = Some ''refused'', internalMessage = Some ''stack''\<rparr>"]
  by (simp add: stubService_def)

subsection \<open>Failures of the handler\<close>




subsection \<open>The requests handed to the handler\<close>

text \<open>
  C3: the one request \<open>updateSource\<close> hands to the handler carries the \<open>sourceId\<close>
  argument and the name and configuration of the \<open>SourcePutRequest\<close> as they are; the
  one request \<open>partialUpdateSource\<close> hands to the handler carries the \<open>sourceId\<close>
  argument and the name, configuration and secret id of the \<open>SourcePatchRequest\<close> as
  they are. It is to this very request that the handler is applied: what the handler
  answers to it is what the operation maps and returns, and what the handler throws at it
  is what the error handler is given.
\<close>

theorem update_requests_carry_fields_unchanged:
  "handlerCalls (fst (updateSource svc sourceId sourcePutRequest)) =
     [Call_updateSource
        \<lparr>SourceUpdate_sourceId = Some sourceId,
         SourceUpdate_connectionConfiguration = SourcePutRequest_configuration sourcePutRequest,
         SourceUpdate_name = SourcePutRequest_name sourcePutRequest\<rparr>] \<and>
   handlerCalls (fst (partialUpdateSource svc sourceId sourcePatchRequest)) =
     [Call_partialUpdateSource
        \<lparr>PartialSourceUpdate_sourceId = Some sourceId,
         PartialSourceUpdate_connectionConfiguration =
           SourcePatchRequest_configuration sourcePatchRequest,
         PartialSourceUpdate_name = SourcePatchRequest_name sourcePatchRequest,
         PartialSourceUpdate_secretId = SourcePatchRequest_secretId sourcePatchRequest\<rparr>] \<and>
   (\<forall>sourceRead.
      sourceHandler_updateSource svc
        \<lparr>SourceUpdate_sourceId = Some sourceId,
         SourceUpdate_connectionConfiguration = SourcePutRequest_configuration sourcePutRequest,
         SourceUpdate_name = SourcePutRequest_name sourcePutRequest\<rparr> = Inr (Some sourceRead) \<longrightarrow>
      snd (updateSource svc sourceId sourcePutRequest) =
        Inr (SourceReadMapper_from svc sourceRead)) \<and>
   (\<forall>e.
      sourceHandler_updateSource svc
        \<lparr>SourceUpdate_sourceId = Some sourceId,
         SourceUpdate_connectionConfiguration = SourcePutRequest_configuration sourcePutRequest,
         SourceUpdate_name = SourcePutRequest_name sourcePutRequest\<rparr> = Inl e \<longrightarrow>
      handleErrorCalls (fst (updateSource svc sourceId sourcePutRequest)) =
        [Call_handleError e (UUID_toString sourceId)]) \<and>
   (\<forall>sourceRead.
      sourceHandler_partialUpdateSource svc
        \<lparr>PartialSourceUpdate_sourceId = Some sourceId,
         PartialSourceUpdate_connectionConfiguration =
           SourcePatchRequest_configuration sourcePatchRequest,
         PartialSourceUpdate_name = SourcePatchRequest_name sourcePatchRequest,
         PartialSourceUpdate_secretId = SourcePatchRequest_secretId sourcePatchRequest\<rparr> =
        Inr (Some sourceRead) \<longrightarrow>
      snd (partialUpdateSource svc sourceId sourcePatchRequest) =
        Inr (SourceReadMapper_from svc sourceRead)) \<and>
   (\<forall>e.
      sourceHandler_partialUpdateSource svc
        \<lparr>PartialSourceUpdate_sourceId = Some sourceId,
         PartialSourceUpdate_connectionConfiguration =
           SourcePatchRequest_configuration sourcePatchRequest,
         PartialSourceUpdate_name = SourcePatchRequest_name sourcePatchRequest,
         PartialSourceUpdate_secretId = SourcePatchRequest_secretId sourcePatchRequest\<rparr> =
        Inl e \<longrightarrow>
      handleErrorCalls (fst (partialUpdateSource svc sourceId sourcePatchRequest)) =
        [Call_handleError e (UUID_toString sourceId)])"
  by (intro conjI allI impI)
     (simp_all add: operation_defs handlerCalls_def handleErrorCalls_def notNull_def
        getOrNull_def split: sum.splits option.splits prod.splits)

theorem update_requests_carry_fields_unchanged_witness:
  "snd (updateSource
     (stubService (Inl (Thrown ''unavailable'')) (Inl (Thrown ''unavailable''))
        \<lparr>sourceHandler_updateSource := echoUpdate\<rparr>)
     (UUID ''s1'')
     \<lparr>SourcePutRequest_name = Some ''pg'', SourcePutRequest_configuration = Some ''{}''\<rparr>) =
     Inr ''s1 pg {}'' \<and>
   snd (partialUpdateSource
     (stubService (Inl (Thrown ''unavailable'')) (Inl (Thrown ''unavailable''))
        \<lparr>sourceHandler_partialUpdateSource := echoPartialUpdate\<rparr>)
     (UUID ''s1'')
     \<lparr>SourcePatchRequest_name = Some ''pg'', SourcePatchRequest_configuration = Some ''{}'',
      SourcePatchRequest_secretId = Some ''k''\<rparr>) =
     Inr ''s1 pg {} k'' \<and>
   handleErrorCalls (fst (updateSource
     (stubService (Inl (Thrown ''unavailable'')) (Inl (Thrown ''unavailable''))
        \<lparr>sourceHandler_updateSource := echoUpdate\<rparr>)
     (UUID ''s1'')
     \<lparr>SourcePutRequest_name = None, SourcePutRequest_configuration = Some ''{}''\<rparr>)) =
     [Call_handleError (Thrown ''incomplete'') ''s1'']"
proof -
  let ?put = "stubService (Inl (Thrown ''unavailable'')) (Inl (Thrown ''unavailable''))
        \<lparr>sourceHandler_updateSource := echoUpdate\<rparr>"
  let ?patch = "stubService (Inl (Thrown ''unavailable'')) (Inl (Thrown ''unavailable''))
        \<lparr>sourceHandler_partialUpdateSource := echoPartialUpdate\<rparr>"
  from update_requests_carry_fields_unchanged [where svc = ?put and sourceId = "UUID ''s1''"
      and sourcePutRequest =
        "\<lparr>SourcePutRequest_name = Some ''pg'', SourcePutRequest_configuration = Some ''{}''\<rparr>"]
  have put: "snd (updateSource ?put (UUID ''s1'')
      \<lparr>SourcePutRequest_name = Some ''pg'', SourcePutRequest_configuration = Some ''{}''\<rparr>) =
      Inr ''s1 pg {}''"
    by (simp add: stubService_def echoUpdate_def)
  from update_requests_carry_fields_unchanged [where svc = ?patch and sourceId = "UUID ''s1''"
      and sourcePatchRequest =
        "\<lparr>SourcePatchRequest_name = Some ''pg'', SourcePatchRequest_configuration = Some ''{}'',
          SourcePatchRequest_secretId = Some ''k''\<rparr>"]
  have patch: "snd (partialUpdateSource ?patch (UUID ''s1'')
      \<lparr>SourcePatchRequest_name = Some ''pg'', SourcePatchRequest_configuration = Some ''{}'',
        SourcePatchRequest_secretId = Some ''k''\<rparr>) = Inr ''s1 pg {} k''"
    by (simp add: stubService_def echoPartialUpdate_def)
  from update_requests_carry_fields_unchanged [where svc = ?put and sourceId = "UUID ''s1''"
      and sourcePutRequest =
        "\<lparr>SourcePutRequest_name = None, SourcePutRequest_configuration = Some ''{}''\<rparr>"]
  have failed: "handleErrorCalls (fst (updateSource ?put (UUID ''s1'')
      \<lparr>SourcePutRequest_name = None, SourcePutRequest_configuration = Some ''{}''\<rparr>)) =
      [Call_handleError (Thrown ''incomplete'') ''s1'']"
    by (simp add: stubService_def echoUpdate_def)
  from put patch failed show ?thesis by simp
qed

text \<open>
  C4: a call of any operation, on any input and whatever the handler and the error handler
  do, invokes a handler method at most once: a failed call is never made again.
\<close>

theorem handler_invoked_at_most_once:
  "length (handlerCalls (fst (invoke svc op))) \<le> 1"
  by (cases op)
     (simp_all add: operation_defs handlerCalls_def notNull_def getOrNull_def
        split: sum.splits option.splits prod.splits if_splits)

subsection \<open>The OAuth stub\<close>

text \<open>
  C5: \<open>controllerInitiateOAuth\<close> returns, for every request and for \<open>null\<close>, a response
  of status \<open>NOT_IMPLEMENTED\<close>, which is 501, and calls no collaborator at all.
\<close>

theorem controllerInitiateOAuth_not_implemented:
  "controllerInitiateOAuth svc initiateOauthRequest =
     ([], Inr \<lparr>Response_status = Status_NOT_IMPLEMENTED, Response_entity = None\<rparr>) \<and>
   controllerInitiateOAuth svc None =
     ([], Inr \<lparr>Response_status = Status_NOT_IMPLEMENTED, Response_entity = None\<rparr>) \<and>
   getStatusCode Status_NOT_IMPLEMENTED = 501"
  by (simp add: controllerInitiateOAuth_def)

subsection \<open>Listing with no workspace given\<close>



subsection \<open>A discovery that did not fail\<close>

text \<open>
  C9: when the discovery returns a result whose \<open>jobInfo\<close> is null, or whose
  \<open>succeeded\<close> is null or true, \<open>getSourceSchema\<close> returns that result as it is;
  given a result, it terminates exceptionally exactly when \<open>succeeded\<close> is false.
\<close>

theorem getSourceSchema_returns_result_unchanged:
  assumes "schedulerHandler_discoverSchemaForSourceFromSourceId svc
             \<lparr>SourceDiscoverSchemaRequestBody_sourceId = Some sourceId,
              SourceDiscoverSchemaRequestBody_disableCache = Some disableCache\<rparr> = Inr (Some r)"
  shows "((jobInfo r = None \<or>
           (\<exists>job. jobInfo r = Some job \<and> (succeeded job = None \<or> succeeded job = Some True)))
          \<longrightarrow> snd (getSourceSchema svc sourceId disableCache) = Inr r) \<and>
         (terminatesExceptionally (snd (getSourceSchema svc sourceId disableCache)) \<longleftrightarrow>
           (\<exists>job. jobInfo r = Some job \<and> succeeded job = Some False))"
  using assms
  by (auto simp add: operation_defs notNull_def getOrNull_def succeededIsFalse_def
        split: option.splits)

theorem getSourceSchema_returns_result_unchanged_witness:
  "snd (getSourceSchema
          (stubService (Inr (Some \<lparr>jobInfo = None\<rparr>)) (Inl (Thrown ''unavailable'')))
          (UUID ''s1'') True) = Inr \<lparr>jobInfo = None\<rparr> \<and>
   snd (getSourceSchema
          (stubService
             (Inr (Some \<lparr>jobInfo = Some \<lparr>succeeded = None, failureReason = None\<rparr>\<rparr>))
             (Inl (Thrown ''unavailable'')))
          (UUID ''s1'') True) =
     Inr \<lparr>jobInfo = Some \<lparr>succeeded = None, failureReason = None\<rparr>\<rparr> \<and>
   snd (getSourceSchema
          (stubService
             (Inr (Some \<lparr>jobInfo = Some \<lparr>succeeded = Some True, failureReason = None\<rparr>\<rparr>))
             (Inl (Thrown ''unavailable'')))
          (UUID ''s1'') True) =
     Inr \<lparr>jobInfo = Some \<lparr>succeeded = Some True, failureReason = None\<rparr>\<rparr>"
  using getSourceSchema_returns_result_unchanged
      [where svc = "stubService (Inr (Some \<lparr>jobInfo = None\<rparr>)) (Inl (Thrown ''unavailable''))"
         and sourceId = "UUID ''s1''" and disableCache = True and r = "\<lparr>jobInfo = None\<rparr>"]
    getSourceSchema_returns_result_unchanged
      [where svc = "stubService
             (Inr (Some \<lparr>jobInfo = Some \<lparr>succeeded = None, failureReason = None\<rparr>\<rparr>))
             (Inl (Thrown ''unavailable''))"
         and sourceId = "UUID ''s1''" and disableCache = True
         and r = "\<lparr>jobInfo = Some \<lparr>succeeded = None, failureReason = None\<rparr>\<rparr>"]
    getSourceSchema_returns_result_unchanged
      [where svc = "stubService
             (Inr (Some \<lparr>jobInfo = Some \<lparr>succeeded = Some True, failureReason = None\<rparr>\<rparr>))
             (Inl (Thrown ''unavailable''))"
         and sourceId = "UUID ''s1''" and disableCache = True
         and r = "\<lparr>jobInfo = Some \<lparr>succeeded = Some True, failureReason = None\<rparr>\<rparr>"]
  by (simp add: stubService_def)

section \<open>Properties of the job history page\<close>

text \<open>
  C6: the status filter offers the four values \<open>all\<close>, \<open>succeeded\<close>, \<open>failed\<close> and
  \<open>cancelled\<close>, in this order and no other; the \<open>statuses\<close> of the query are
  \<open>undefined\<close> for \<open>all\<close>, and for any other value the list of that value alone.
\<close>

theorem status_filter_values_and_statuses:
  "map Option_value statusFilterOptions = [''all'', ''succeeded'', ''failed'', ''cancelled''] \<and>
   (jobStatus filterValues = ''all'' \<longrightarrow>
      statuses (listJobsParams lib Number connection linkedJobId filterValues) = None) \<and>
   (jobStatus filterValues \<noteq> ''all'' \<longrightarrow>
      statuses (listJobsParams lib Number connection linkedJobId filterValues) =
        Some [jobStatus filterValues])"
  by (simp add: statusFilterOptions_def listJobsParams_def)

theorem status_filter_values_and_statuses_witness:
  "\<forall>other.
     statuses (listJobsParams (hostDayjs 0 other) length exampleConnection None
        \<lparr>jobStatus = ''all'', startDate = [], endDate = []\<rparr>) = None \<and>
     statuses (listJobsParams (hostDayjs 0 other) length exampleConnection None
        \<lparr>jobStatus = ''failed'', startDate = [], endDate = []\<rparr>) = Some [''failed'']"
proof
  fix other
  from status_filter_values_and_statuses
      [where filterValues = "\<lparr>jobStatus = ''all'', startDate = [], endDate = []\<rparr>"
         and lib = "hostDayjs 0 other" and Number = length and linkedJobId = None
         and connection = exampleConnection]
    status_filter_values_and_statuses
      [where filterValues = "\<lparr>jobStatus = ''failed'', startDate = [], endDate = []\<rparr>"
         and lib = "hostDayjs 0 other" and Number = length and linkedJobId = None
         and connection = exampleConnection]
  show "statuses (listJobsParams (hostDayjs 0 other) length exampleConnection None
        \<lparr>jobStatus = ''all'', startDate = [], endDate = []\<rparr>) = None \<and>
     statuses (listJobsParams (hostDayjs 0 other) length exampleConnection None
        \<lparr>jobStatus = ''failed'', startDate = [], endDate = []\<rparr>) = Some [''failed'']"
    by simp
qed

subsection \<open>The calendar of the host\<close>


































subsection \<open>The dates of the query\<close>




subsection \<open>The size reported when more jobs are loaded\<close>

text \<open>
  C10, as stated, fails: with fifteen pages loaded the tracked \<open>job_page_size\<close> is 15
  although data is present.
\<close>

theorem job_page_size_fifteen_pages_counterexample:
  "tracked_job_page_size
     (onLoadMoreJobs id exampleConnection (Some \<lparr>pages = replicate 15 ()\<rparr>)) = [15] \<and>
   Some \<lparr>pages = replicate 15 ()\<rparr> \<noteq> None"
  by (simp add: onLoadMoreJobs_def)

text \<open>
  C10, amended: the one event a click tracks has \<open>job_page_size\<close> equal to the number of
  pages loaded whenever data is present, and equal to 15 when no data is present; when data
  is present with at least one page, it is not the number of pages multiplied by the
  increment.
\<close>

theorem job_page_size_is_number_of_pages:
  "(\<forall>d. data = Some d \<longrightarrow>
      tracked_job_page_size (onLoadMoreJobs getFrequencyFromScheduleData connection data) =
        [length (pages d)]) \<and>
   (data = None \<longrightarrow>
      tracked_job_page_size (onLoadMoreJobs getFrequencyFromScheduleData connection data) =
        [15]) \<and>
   (\<forall>d. data = Some d \<and> pages d \<noteq> [] \<longrightarrow>
      tracked_job_page_size (onLoadMoreJobs getFrequencyFromScheduleData connection data) \<noteq>
        [length (pages d) * JOB_PAGE_SIZE_INCREMENT])"
  by (auto simp add: onLoadMoreJobs_def JOB_PAGE_SIZE_INCREMENT_def)

theorem job_page_size_is_number_of_pages_witness:
  "tracked_job_page_size
     (onLoadMoreJobs id exampleConnection (Some \<lparr>pages = [(), ()]\<rparr>)) = [2] \<and>
   tracked_job_page_size
     (onLoadMoreJobs id exampleConnection (None :: unit InfiniteData option)) = [15] \<and>
   tracked_job_page_size
     (onLoadMoreJobs id exampleConnection (Some \<lparr>pages = [(), ()]\<rparr>)) \<noteq>
     [2 * JOB_PAGE_SIZE_INCREMENT]"
  using job_page_size_is_number_of_pages
      [where data = "Some \<lparr>pages = [(), ()]\<rparr>" and getFrequencyFromScheduleData = id
         and connection = exampleConnection]
    job_page_size_is_number_of_pages
      [where data = "None :: unit InfiniteData option" and getFrequencyFromScheduleData = id
         and connection = exampleConnection]
  by (simp add: JOB_PAGE_SIZE_INCREMENT_def)

end
